theory Spec2Isabelle
  imports Complex_Main "HOL-Library.Word"
begin

section \<open>JavaScript strings\<close>

text \<open>
  A JavaScript string is a sequence of UTF-16 code units. String literals of the source
  are ASCII and are written \<open>js ''...''\<close>.
\<close>

type_synonym js_string = "16 word list"

definition js :: "string \<Rightarrow> js_string" where
  "js s = map (\<lambda>c. of_nat (of_char c)) s"

text \<open>
  \<open>String.prototype.trim\<close> removes white space and line terminators from both ends:
  TAB, LF, VT, FF, CR, SP, NBSP, the Unicode space separators (U+1680, U+2000 to U+200A,
  U+202F, U+205F, U+3000), LS, PS and ZWNBSP.
\<close>

definition isWhiteSpace :: "16 word \<Rightarrow> bool" where
  "isWhiteSpace c \<longleftrightarrow>
     c \<in> {0x0009, 0x000A, 0x000B, 0x000C, 0x000D, 0x0020, 0x00A0, 0x1680,
          0x2028, 0x2029, 0x202F, 0x205F, 0x3000, 0xFEFF}
     \<or> (0x2000 \<le> c \<and> c \<le> 0x200A)"

definition trim :: "js_string \<Rightarrow> js_string" where
  "trim s = rev (dropWhile isWhiteSpace (rev (dropWhile isWhiteSpace s)))"

text \<open>A string is falsy exactly when it is empty.\<close>

definition truthy :: "js_string \<Rightarrow> bool" where
  "truthy s \<longleftrightarrow> s \<noteq> []"

section \<open>Data model (types/index.ts)\<close>

text \<open>
  Interfaces are records. Field names that several interfaces share, or that clash with a
  constant of HOL, carry the interface as a suffix. Optional fields are options.
\<close>

record Person =
  id_Person :: js_string
  name_Person :: js_string
  notes_Person :: "js_string option"
  face_encoding :: "real list option"
  profile_image :: "js_string option"
  post_count_Person :: int
  created_at :: "js_string option"

record Post =
  id_Post :: js_string
  shortcode :: js_string
  caption_Post :: "js_string option"
  posted_at :: "js_string option"
  likes :: int
  comments :: int
  image_urls :: "js_string list"
  faces_detected_Post :: int
  processed :: bool

record Location =
  id_Location :: js_string
  name_Location :: js_string
  latitude :: "real option"
  longitude :: "real option"
  post_count_Location :: int

datatype node_type = Person_t | Post_t | Location_t | Account_t | Hashtag_t

text \<open>Values of type \<open>unknown\<close>, as JSON delivers them.\<close>

datatype json = JNull | JBool bool | JNum real | JStr js_string
  | JArr "json list" | JObj "(js_string \<times> json) list"

record GraphNode =
  id_node :: js_string
  label :: js_string
  type_node :: node_type
  properties_node :: "(js_string \<times> json) list"

record GraphEdge =
  source_edge :: js_string
  target_edge :: js_string
  type_edge :: js_string
  properties_edge :: "(js_string \<times> json) list option"

record GraphData =
  nodes :: "GraphNode list"
  edges :: "GraphEdge list"

record Stats =
  total_persons :: int
  total_posts_Stats :: int
  total_locations :: int
  total_accounts :: int
  total_hashtags :: int
  total_faces_detected :: int
  recent_posts :: "Post list"

text \<open>A rejected request. \<open>detail\<close> is \<open>err.response?.data?.detail\<close>.\<close>

record api_error =
  message_err :: js_string
  detail :: "js_string option"

section \<open>The application store (lib/store.ts)\<close>

datatype graph_mode = Mode2d | Mode3d

record AppState =
  graphData :: "GraphData option"
  persons :: "Person list"
  posts :: "Post list"
  stats :: "Stats option"
  selectedNode :: "GraphNode option"
  searchResults :: "GraphNode list"
  isLoading :: bool
  error :: "js_string option"
  sidebarOpen :: bool
  graphMode :: graph_mode

definition initial_state :: AppState where
  "initial_state =
     \<lparr>graphData = None, persons = [], posts = [], stats = None, selectedNode = None,
      searchResults = [], isLoading = False, error = None, sidebarOpen = True,
      graphMode = Mode2d\<rparr>"

text \<open>
  An async action awaits one request, and runs in two steps. The first step is what it
  does up to the \<open>await\<close>: a \<open>set\<close>, and the request. The second step runs when the
  request settles, on the store as it is then: other actions may have run on the store
  in between. The outcome of the request is \<open>Inl\<close> for a rejection and \<open>Inr\<close> for the
  resolved data. Each \<open>set({...})\<close> is a record update of the fields it names.
\<close>

text \<open>\<open>fetchGraphData(limit = 500)\<close>: the store after the first \<open>set\<close>, and the limit
  requested.\<close>

definition fetchGraphData_begin :: "int option \<Rightarrow> AppState \<Rightarrow> AppState \<times> int" where
  "fetchGraphData_begin limit s =
     (s\<lparr>isLoading := True, error := None\<rparr>, case limit of None \<Rightarrow> 500 | Some l \<Rightarrow> l)"

definition fetchGraphData_settle :: "(api_error + GraphData) \<Rightarrow> AppState \<Rightarrow> AppState" where
  "fetchGraphData_settle outcome s =
     (case outcome of
        Inr graph \<Rightarrow> s\<lparr>graphData := Some graph, isLoading := False\<rparr>
      | Inl e \<Rightarrow> s\<lparr>error := Some (js ''Failed to fetch graph data''), isLoading := False\<rparr>)"

text \<open>A run of \<open>fetchGraphData\<close> with nothing else running on the store in between.\<close>

definition fetchGraphData ::
  "(int \<Rightarrow> api_error + GraphData) \<Rightarrow> int option \<Rightarrow> AppState \<Rightarrow> AppState" where
  "fetchGraphData getFullGraph limit s =
     (case fetchGraphData_begin limit s of
        (s1, limit') \<Rightarrow> fetchGraphData_settle (getFullGraph limit') s1)"

definition fetchPersons_begin :: "AppState \<Rightarrow> AppState" where
  "fetchPersons_begin s = s\<lparr>isLoading := True, error := None\<rparr>"

definition fetchPersons_settle :: "(api_error + Person list) \<Rightarrow> AppState \<Rightarrow> AppState" where
  "fetchPersons_settle outcome s =
     (case outcome of
        Inr ps \<Rightarrow> s\<lparr>persons := ps, isLoading := False\<rparr>
      | Inl e \<Rightarrow> s\<lparr>error := Some (js ''Failed to fetch persons''), isLoading := False\<rparr>)"

definition fetchPersons :: "(api_error + Person list) \<Rightarrow> AppState \<Rightarrow> AppState" where
  "fetchPersons list_persons s = fetchPersons_settle list_persons (fetchPersons_begin s)"

definition fetchPosts_begin :: "AppState \<Rightarrow> AppState" where
  "fetchPosts_begin s = s\<lparr>isLoading := True, error := None\<rparr>"

definition fetchPosts_settle :: "(api_error + Post list) \<Rightarrow> AppState \<Rightarrow> AppState" where
  "fetchPosts_settle outcome s =
     (case outcome of
        Inr ps \<Rightarrow> s\<lparr>posts := ps, isLoading := False\<rparr>
      | Inl e \<Rightarrow> s\<lparr>error := Some (js ''Failed to fetch posts''), isLoading := False\<rparr>)"

definition fetchPosts :: "(api_error + Post list) \<Rightarrow> AppState \<Rightarrow> AppState" where
  "fetchPosts list_posts s = fetchPosts_settle list_posts (fetchPosts_begin s)"

text \<open>\<open>fetchStats\<close> has one \<open>set\<close>, after the request.\<close>

definition fetchStats :: "(api_error + Stats) \<Rightarrow> AppState \<Rightarrow> AppState" where
  "fetchStats getStats s =
     (case getStats of Inr st \<Rightarrow> s\<lparr>stats := Some st\<rparr> | Inl e \<Rightarrow> s)"

text \<open>
  \<open>search\<close>, run with nothing in between: it reads \<open>data.nodes\<close> of the resolved
  graph; the search type defaults to \<open>'all'\<close>.
\<close>

definition search ::
  "(js_string \<Rightarrow> js_string \<Rightarrow> api_error + GraphData) \<Rightarrow> js_string \<Rightarrow> js_string option
     \<Rightarrow> AppState \<Rightarrow> AppState" where
  "search searchGet query type s =
     (let type' = (case type of None \<Rightarrow> js ''all'' | Some t \<Rightarrow> t);
          s1 = s\<lparr>isLoading := True, error := None\<rparr>
      in case searchGet query type' of
           Inr data \<Rightarrow> s1\<lparr>searchResults := nodes data, isLoading := False\<rparr>
         | Inl e \<Rightarrow> s1\<lparr>error := Some (js ''Search failed''), isLoading := False\<rparr>)"

section \<open>The API client (lib/api.ts)\<close>

text \<open>
  The axios instance is a transport: it records each request it is given and answers it.
  A response carries the payload in \<open>data\<close>; a rejected request is \<open>Inl\<close>.
\<close>

record import_body =
  username :: js_string
  max_posts :: int
  include_tagged :: bool

datatype request = POST js_string import_body | GET js_string

record 'd response =
  data :: 'd
  status_code :: int

record 'd transport =
  sent :: "request list"
  respond :: "request \<Rightarrow> api_error + 'd response"

definition api_post ::
  "js_string \<Rightarrow> import_body \<Rightarrow> 'd transport \<Rightarrow> (api_error + 'd response) \<times> 'd transport" where
  "api_post url body t = (respond t (POST url body), t\<lparr>sent := sent t @ [POST url body]\<rparr>)"


text \<open>The data \<open>importPosts\<close> promises: \<open>{ job_id, message, status_url }\<close>.\<close>

record import_started =
  job_id :: js_string
  message :: js_string
  status_url :: js_string

text \<open>
  \<open>importPosts(username, maxPosts = 50, includeTagged = true)\<close>: an argument left out
  is \<open>None\<close> and takes its default.
\<close>

definition importPosts ::
  "js_string \<Rightarrow> int option \<Rightarrow> bool option \<Rightarrow> 'd transport \<Rightarrow> (api_error + 'd) \<times> 'd transport" where
  "importPosts username' maxPosts includeTagged t =
     (let maxPosts' = (case maxPosts of None \<Rightarrow> 50 | Some m \<Rightarrow> m);
          includeTagged' = (case includeTagged of None \<Rightarrow> True | Some b \<Rightarrow> b);
          (r, t') = api_post (js ''/instagram/import'')
                      \<lparr>username = username', max_posts = maxPosts',
                       include_tagged = includeTagged'\<rparr> t
      in (case r of Inl e \<Rightarrow> Inl e | Inr resp \<Rightarrow> Inr (data resp), t'))"

datatype ImportStatus = Pending | Running | Completed | Failed



text \<open>
  An \<open>ImportJob\<close> as the client holds it: the object that the server's JSON was parsed
  to. Its \<open>status\<close> is a string; the declaration is erased when the program runs, and
  nothing checks the string against it.
\<close>

record ImportJob =
  job_id_job :: js_string
  status :: js_string
  username_job :: js_string
  total_posts :: int
  processed_posts :: int
  faces_detected :: int
  errors :: "js_string list"


section \<open>The graph view (components/GraphVisualization.tsx)\<close>

definition NODE_COLORS :: "(node_type \<times> js_string) list" where
  "NODE_COLORS =
     [(Person_t, js ''#ef4444''), (Post_t, js ''#3b82f6''), (Location_t, js ''#22c55e''),
      (Account_t, js ''#a855f7''), (Hashtag_t, js ''#f97316'')]"

definition NODE_SIZES :: "(node_type \<times> int) list" where
  "NODE_SIZES =
     [(Person_t, 8), (Post_t, 6), (Location_t, 7), (Account_t, 7), (Hashtag_t, 5)]"

text \<open>\<open>x || d\<close> on a number that may be undefined, and on a string that may be.\<close>

definition num_or :: "int option \<Rightarrow> int \<Rightarrow> int" where
  "num_or x d = (case x of None \<Rightarrow> d | Some v \<Rightarrow> if v = 0 then d else v)"

definition str_or :: "js_string option \<Rightarrow> js_string \<Rightarrow> js_string" where
  "str_or x d = (case x of None \<Rightarrow> d | Some v \<Rightarrow> if truthy v then v else d)"

record fg_node =
  id_fg :: js_string
  name_fg :: js_string
  type_fg :: node_type
  properties_fg :: "(js_string \<times> json) list"
  val :: int
  color :: js_string

record fg_link =
  source_link :: js_string
  target_link :: js_string
  type_link :: js_string

record fg_data =
  nodes_fg :: "fg_node list"
  links :: "fg_link list"

text \<open>\<open>nodeMap\<close>: every node is set under its id, in order; a later node replaces an
  earlier one with the same id.\<close>

definition nodeMap :: "GraphNode list \<Rightarrow> (js_string \<rightharpoonup> GraphNode)" where
  "nodeMap ns = fold (\<lambda>node m. m(id_node node \<mapsto> node)) ns Map.empty"

definition has :: "(js_string \<rightharpoonup> GraphNode) \<Rightarrow> js_string \<Rightarrow> bool" where
  "has m k \<longleftrightarrow> m k \<noteq> None"

definition to_fg_node :: "GraphNode \<Rightarrow> fg_node" where
  "to_fg_node node =
     \<lparr>id_fg = id_node node, name_fg = label node, type_fg = type_node node,
      properties_fg = properties_node node,
      val = num_or (map_of NODE_SIZES (type_node node)) 5,
      color = str_or (map_of NODE_COLORS (type_node node)) (js ''#888'')\<rparr>"

definition to_fg_link :: "GraphEdge \<Rightarrow> fg_link" where
  "to_fg_link edge =
     \<lparr>source_link = source_edge edge, target_link = target_edge edge,
      type_link = type_edge edge\<rparr>"

text \<open>The \<open>useMemo\<close> transform that produces the force-graph data.\<close>

definition graphData_fg :: "GraphData \<Rightarrow> fg_data" where
  "graphData_fg d =
     (let m = nodeMap (nodes d)
      in \<lparr>nodes_fg = map to_fg_node (nodes d),
          links = map to_fg_link
                    (filter (\<lambda>edge. has m (source_edge edge) \<and> has m (target_edge edge))
                       (edges d))\<rparr>)"

section \<open>The import page (Home: Instagram import)\<close>

text \<open>
  \<open>importStatus\<close> is untyped state. The code puts three shapes in it: the result of
  \<open>importPosts\<close> with \<open>status: 'started'\<close>, a polled \<open>ImportJob\<close>, and
  \<open>{ status: 'failed', error }\<close> when starting the import was rejected.
\<close>

datatype import_status = Started import_started | Job ImportJob | Start_failed js_string

datatype store_call = Call_fetchGraphData | Call_fetchPersons | Call_fetchPosts | Call_fetchStats

text \<open>
  The import state of \<open>Home\<close>, with what the handlers leave behind them: \<open>timers\<close>
  holds the delay (ms) of each pending \<open>setTimeout(pollStatus, _)\<close> together with the job
  id its closure polls, and \<open>store_calls\<close> the store actions called so far.
\<close>

record import_state =
  importUsername :: js_string
  importMaxPosts :: int
  importing :: bool
  importStatus :: "import_status option"
  timers :: "(nat \<times> js_string) list"
  store_calls :: "store_call list"

text \<open>
  \<open>pollStatus\<close> for the job \<open>jobId\<close>, given the outcome of its
  \<open>getImportStatus\<close> request. A rejection leaves \<open>pollStatus\<close> at the \<open>await\<close>:
  nothing after it runs.
\<close>

definition pollStatus :: "js_string \<Rightarrow> (api_error + ImportJob) \<Rightarrow> import_state \<Rightarrow> import_state" where
  "pollStatus jobId outcome s =
     (case outcome of
        Inl e \<Rightarrow> s
      | Inr job \<Rightarrow>
          (let s1 = s\<lparr>importStatus := Some (Job job)\<rparr>
           in if status job = js ''running''
              then s1\<lparr>timers := timers s1 @ [(2000, jobId)]\<rparr>
              else s1\<lparr>importing := False,
                      store_calls := store_calls s1 @
                        [Call_fetchGraphData, Call_fetchPersons, Call_fetchPosts,
                         Call_fetchStats]\<rparr>))"

text \<open>
  \<open>handleInstagramImport\<close>, given the outcome of
  \<open>instagramApi.importPosts(importUsername, importMaxPosts)\<close>.
\<close>

definition handleInstagramImport ::
  "(js_string \<Rightarrow> int \<Rightarrow> api_error + import_started) \<Rightarrow> import_state \<Rightarrow> import_state" where
  "handleInstagramImport importPosts_call s =
     (if \<not> truthy (trim (importUsername s)) then s
      else
        (let s1 = s\<lparr>importing := True, importStatus := None\<rparr>
         in case importPosts_call (importUsername s1) (importMaxPosts s1) of
              Inr result \<Rightarrow>
                s1\<lparr>importStatus := Some (Started result),
                   timers := timers s1 @ [(2000, job_id result)]\<rparr>
            | Inl e \<Rightarrow>
                s1\<lparr>importStatus := Some (Start_failed (message_err e)),
                   importing := False\<rparr>))"

text \<open>
  The timers fire one after the other; each firing runs \<open>pollStatus\<close> on the next
  outcome of the status request. With no timer pending nothing runs any more.
\<close>

fun run_timers :: "(api_error + ImportJob) list \<Rightarrow> import_state \<Rightarrow> import_state" where
  "run_timers [] s = s"
| "run_timers (outcome # rest) s =
     (case timers s of
        [] \<Rightarrow> s
      | (delay, jobId) # pending \<Rightarrow>
          run_timers rest (pollStatus jobId outcome (s\<lparr>timers := pending\<rparr>)))"

text \<open>
  The status panel, rendered when \<open>importStatus\<close> is not null: its colour, the status,
  the line \<open>Processed: p / t posts\<close> with \<open>total_posts || '?'\<close> for \<open>t\<close>, the line of
  faces detected, and the error list \<open>errors.slice(0, 5)\<close>. The two lines are rendered
  when their field is not undefined, the list when \<open>errors?.length > 0\<close>.
\<close>

datatype total_shown = Total int | Question_mark

datatype panel_colour = Green | Red | Blue

record status_panel =
  colour :: panel_colour
  status_shown :: js_string
  processed_shown :: "(int \<times> total_shown) option"
  faces_shown :: "int option"
  errors_shown :: "js_string list option"

definition render_import_status :: "import_status option \<Rightarrow> status_panel option" where
  "render_import_status st =
     (case st of
        None \<Rightarrow> None
      | Some (Started r) \<Rightarrow>
          Some \<lparr>colour = Blue, status_shown = js ''started'', processed_shown = None,
                faces_shown = None, errors_shown = None\<rparr>
      | Some (Start_failed msg) \<Rightarrow>
          Some \<lparr>colour = Red, status_shown = js ''failed'', processed_shown = None,
                faces_shown = None, errors_shown = None\<rparr>
      | Some (Job j) \<Rightarrow>
          Some \<lparr>colour = (if status j = js ''completed'' then Green
                          else if status j = js ''failed'' then Red else Blue),
                status_shown = status j,
                processed_shown =
                  Some (processed_posts j,
                        if total_posts j = 0 then Question_mark else Total (total_posts j)),
                faces_shown = Some (faces_detected j),
                errors_shown =
                  (if length (errors j) > 0 then Some (take 5 (errors j)) else None)\<rparr>)"

section \<open>The upload form (components/ImageUpload.tsx)\<close>

datatype upload_mode = Post_mode | Person_mode

datatype File = File js_string

datatype form_value = File_value File | Text_value js_string

text \<open>\<open>FormData\<close>: the appended entries, in order.\<close>

type_synonym FormData = "(js_string \<times> form_value) list"

record bounding_box =
  top_bb :: real
  right_bb :: real
  bottom_bb :: real
  left_bb :: real

text \<open>
  \<open>confidence\<close> is a number of the runtime, an IEEE double; the field holds its value.
\<close>

record FaceDetection =
  person_id :: "js_string option"
  person_name :: "js_string option"
  confidence :: real
  bounding_box :: bounding_box
  is_new_face :: bool

record PostAnalysis =
  post_id :: js_string
  faces :: "FaceDetection list"
  location_analysis :: "Location option"
  hashtags :: "js_string list"
  caption_analysis :: "js_string option"

text \<open>\<open>result\<close> holds an analysis, or the empty object that person mode puts there.\<close>

datatype upload_result = Analysis PostAnalysis | Empty_object

text \<open>A face offered for assignment: the detection and \<open>assignedName\<close>, if any.\<close>

type_synonym new_face = "FaceDetection \<times> js_string option"

record upload_state =
  file_selected :: "File option"
  preview :: "js_string option"
  uploading :: bool
  result :: "upload_result option"
  error_upload :: "js_string option"
  caption :: js_string
  location :: js_string
  personName :: js_string
  notes_upload :: js_string
  newFaces :: "new_face list"

datatype upload_call = Call_upload FormData | Call_createFromImage FormData | Call_onSuccess

definition post_form :: "File \<Rightarrow> upload_state \<Rightarrow> FormData" where
  "post_form f s =
     [(js ''file'', File_value f)]
     @ (if truthy (caption s) then [(js ''caption'', Text_value (caption s))] else [])
     @ (if truthy (location s) then [(js ''location_name'', Text_value (location s))] else [])"

definition person_form :: "File \<Rightarrow> upload_state \<Rightarrow> FormData" where
  "person_form f s =
     [(js ''file'', File_value f), (js ''name'', Text_value (personName s))]
     @ (if truthy (notes_upload s) then [(js ''notes'', Text_value (notes_upload s))] else [])"

text \<open>
  \<open>handleUpload\<close> awaits one request, and runs in two steps. \<open>handleUpload_begin\<close> is
  what it does up to the \<open>await\<close>: the new state, and the request it makes, if it makes
  one. \<open>handleUpload_settle\<close> runs when the request settles, on the state as it is
  then: it gives the new state and the calls it makes. \<open>onSuccess\<close> says whether the
  prop is given. A rejected request is caught: the error shown is
  \<open>err.response?.data?.detail || 'Upload failed'\<close>.
\<close>

datatype upload_request = Request_upload FormData | Request_createFromImage FormData

datatype upload_outcome =
  Uploaded "api_error + PostAnalysis" | Created "api_error + Person"

definition handleUpload_begin ::
  "upload_mode \<Rightarrow> upload_state \<Rightarrow> upload_state \<times> upload_request option" where
  "handleUpload_begin mode s =
     (case file_selected s of
        None \<Rightarrow> (s, None)
      | Some f \<Rightarrow>
          (let s1 = s\<lparr>uploading := True, error_upload := None\<rparr>
           in case mode of
                Post_mode \<Rightarrow> (s1, Some (Request_upload (post_form f s1)))
              | Person_mode \<Rightarrow>
                  if \<not> truthy (trim (personName s1))
                  then (s1\<lparr>error_upload := Some (js ''Please enter a name for the person''),
                           uploading := False\<rparr>, None)
                  else (s1, Some (Request_createFromImage (person_form f s1)))))"

definition handleUpload_settle ::
  "bool \<Rightarrow> upload_outcome \<Rightarrow> upload_state \<Rightarrow> upload_state \<times> upload_call list" where
  "handleUpload_settle onSuccess outcome s =
     (let succeeded = (if onSuccess then [Call_onSuccess] else [])
      in case outcome of
           Uploaded (Inr analysis) \<Rightarrow>
             (s\<lparr>result := Some (Analysis analysis),
                newFaces := map (\<lambda>face. (face, None)) (filter is_new_face (faces analysis)),
                uploading := False\<rparr>,
              succeeded)
         | Created (Inr person) \<Rightarrow>
             (s\<lparr>result := Some Empty_object, uploading := False\<rparr>, succeeded)
         | Uploaded (Inl err) \<Rightarrow>
             (s\<lparr>error_upload := Some (str_or (detail err) (js ''Upload failed'')),
                uploading := False\<rparr>, [])
         | Created (Inl err) \<Rightarrow>
             (s\<lparr>error_upload := Some (str_or (detail err) (js ''Upload failed'')),
                uploading := False\<rparr>, []))"

text \<open>
  A run of \<open>handleUpload\<close> with nothing else in between; \<open>upload\<close> and
  \<open>createFromImage\<close> answer the requests of \<open>postsApi\<close> and \<open>personsApi\<close>. The result
  is the new state and the calls made, in order.
\<close>

definition handleUpload ::
  "upload_mode \<Rightarrow> bool \<Rightarrow> (FormData \<Rightarrow> api_error + PostAnalysis)
     \<Rightarrow> (FormData \<Rightarrow> api_error + Person) \<Rightarrow> upload_state
     \<Rightarrow> upload_state \<times> upload_call list" where
  "handleUpload mode onSuccess upload createFromImage s =
     (case handleUpload_begin mode s of
        (s1, None) \<Rightarrow> (s1, [])
      | (s1, Some (Request_upload formData)) \<Rightarrow>
          (case handleUpload_settle onSuccess (Uploaded (upload formData)) s1 of
             (s2, calls) \<Rightarrow> (s2, Call_upload formData # calls))
      | (s1, Some (Request_createFromImage formData)) \<Rightarrow>
          (case handleUpload_settle onSuccess (Created (createFromImage formData)) s1 of
             (s2, calls) \<Rightarrow> (s2, Call_createFromImage formData # calls)))"

text \<open>
  The other handlers that write \<open>file\<close> and \<open>preview\<close>. \<open>URL.createObjectURL\<close> is the
  browser's: it gives a \<open>blob:\<close> URL, never empty.
\<close>

definition createObjectURL :: "File \<Rightarrow> js_string" where
  "createObjectURL f = (case f of File n \<Rightarrow> js ''blob:'' @ n)"

definition onDrop :: "File list \<Rightarrow> upload_state \<Rightarrow> upload_state" where
  "onDrop acceptedFiles s =
     (case acceptedFiles of
        [] \<Rightarrow> s
      | selectedFile # others \<Rightarrow>
          s\<lparr>file_selected := Some selectedFile, preview := Some (createObjectURL selectedFile),
            result := None, error_upload := None, newFaces := []\<rparr>)"

definition clearFile :: "upload_state \<Rightarrow> upload_state" where
  "clearFile s =
     s\<lparr>file_selected := None, preview := None, result := None, error_upload := None,
       newFaces := []\<rparr>"

definition initial_upload_state :: upload_state where
  "initial_upload_state =
     \<lparr>file_selected = None, preview = None, uploading = False, result = None,
      error_upload = None, caption = [], location = [], personName = [], notes_upload = [],
      newFaces = []\<rparr>"

text \<open>
  Everything below the dropzone, the upload button and the results panel included, is
  rendered under \<open>preview &&\<close>. \<open>file\<close> and \<open>preview\<close> are set together and cleared
  together.
\<close>

definition preview_shown :: "upload_state \<Rightarrow> bool" where
  "preview_shown s = (case preview s of None \<Rightarrow> False | Some url \<Rightarrow> truthy url)"

definition file_with_preview :: "upload_state \<Rightarrow> bool" where
  "file_with_preview s \<longleftrightarrow> (file_selected s = None) = (preview s = None)"

fun is_createFromImage_call :: "upload_call \<Rightarrow> bool" where
  "is_createFromImage_call (Call_createFromImage formData) = True"
| "is_createFromImage_call _ = False"




section \<open>The embedding matcher\<close>

text \<open>
  Modelled from the spec: the backend's EmbeddingMatcher and PersonRegistry are not among
  the sources, which hold the frontend only. The registry is the list of known persons,
  earliest created first, each with one or more embeddings. \<open>match\<close> computes the
  distance between the query and every embedding held, takes the strictly smallest
  (an exact tie goes to the earliest person) and returns that person when the distance
  is at most the tolerance, else \<open>NoMatch\<close>. The distance and the tolerance are
  parameters: the spec fixes neither.
\<close>

record 'e known_person =
  personId :: js_string
  embeddings :: "'e list"

datatype match_result = Match js_string real | NoMatch

definition candidates ::
  "('e \<Rightarrow> 'e \<Rightarrow> real) \<Rightarrow> 'e known_person list \<Rightarrow> 'e \<Rightarrow> (js_string \<times> real) list" where
  "candidates distance registry q =
     concat (map (\<lambda>p. map (\<lambda>e. (personId p, distance q e)) (embeddings p)) registry)"

fun closest :: "(js_string \<times> real) list \<Rightarrow> (js_string \<times> real) option" where
  "closest [] = None"
| "closest (c # cs) = Some (fold (\<lambda>x best. if snd x < snd best then x else best) cs c)"

definition match ::
  "real \<Rightarrow> ('e \<Rightarrow> 'e \<Rightarrow> real) \<Rightarrow> 'e known_person list \<Rightarrow> 'e \<Rightarrow> match_result" where
  "match tolerance distance registry q =
     (case closest (candidates distance registry q) of
        None \<Rightarrow> NoMatch
      | Some (p, d) \<Rightarrow> if d \<le> tolerance then Match p d else NoMatch)"

text \<open>The Euclidean distance of two vectors of one length.\<close>

definition euclidean :: "real list \<Rightarrow> real list \<Rightarrow> real" where
  "euclidean x y = sqrt (\<Sum>(a, b) \<leftarrow> zip x y. (a - b)\<^sup>2)"

section \<open>Sample values\<close>

definition sample_error :: api_error where
  "sample_error = \<lparr>message_err = js ''Network Error'', detail = None\<rparr>"

definition sample_node :: "string \<Rightarrow> node_type \<Rightarrow> GraphNode" where
  "sample_node i t = \<lparr>id_node = js i, label = js i, type_node = t, properties_node = []\<rparr>"

definition sample_edge :: "string \<Rightarrow> string \<Rightarrow> GraphEdge" where
  "sample_edge a b =
     \<lparr>source_edge = js a, target_edge = js b, type_edge = js ''APPEARS_IN'',
      properties_edge = None\<rparr>"

text \<open>Two nodes, an edge between them and an edge to a node that is not there.\<close>

definition sample_graph :: GraphData where
  "sample_graph =
     \<lparr>nodes = [sample_node ''p1'' Person_t, sample_node ''q1'' Post_t],
      edges = [sample_edge ''p1'' ''q1'', sample_edge ''p1'' ''q2'']\<rparr>"

definition sample_job :: "js_string \<Rightarrow> int \<Rightarrow> js_string list \<Rightarrow> ImportJob" where
  "sample_job st n errs =
     \<lparr>job_id_job = js ''j1'', status = st, username_job = js ''ada'', total_posts = n,
      processed_posts = 0, faces_detected = 0, errors = errs\<rparr>"


definition sample_import_state :: import_state where
  "sample_import_state =
     \<lparr>importUsername = js ''ada'', importMaxPosts = 50, importing = True,
      importStatus = None, timers = [], store_calls = []\<rparr>"

definition sample_face :: "string \<Rightarrow> bool \<Rightarrow> FaceDetection" where
  "sample_face n new =
     \<lparr>person_id = Some (js n), person_name = Some (js n), confidence = 9 / 10,
      bounding_box = \<lparr>top_bb = 0, right_bb = 10, bottom_bb = 10, left_bb = 0\<rparr>,
      is_new_face = new\<rparr>"

definition sample_analysis :: PostAnalysis where
  "sample_analysis =
     \<lparr>post_id = js ''q1'',
      faces = [sample_face ''u1'' True, sample_face ''alice'' False, sample_face ''u2'' True],
      location_analysis = None, hashtags = [], caption_analysis = None\<rparr>"

definition sample_person :: Person where
  "sample_person =
     \<lparr>id_Person = js ''p1'', name_Person = js ''Ada'', notes_Person = None,
      face_encoding = None, profile_image = None, post_count_Person = 0,
      created_at = None\<rparr>"


definition sample_upload :: "FormData \<Rightarrow> api_error + PostAnalysis" where
  "sample_upload formData = Inr sample_analysis"

definition sample_createFromImage :: "FormData \<Rightarrow> api_error + Person" where
  "sample_createFromImage formData = Inr sample_person"

definition sample_getFullGraph :: "int \<Rightarrow> api_error + GraphData" where
  "sample_getFullGraph l = (if l = 500 then Inl sample_error else Inr sample_graph)"

definition sample_registry :: "real list known_person list" where
  "sample_registry = [\<lparr>personId = js ''alice'', embeddings = [[0, 0]]\<rparr>]"

definition sample_importPosts_call :: "js_string \<Rightarrow> int \<Rightarrow> api_error + import_started" where
  "sample_importPosts_call u n =
     Inr \<lparr>job_id = js ''j1'', message = js ''Import started'',
          status_url = js ''/api/instagram/import/j1/status''\<rparr>"

definition sample_upload_state :: "File option \<Rightarrow> js_string \<Rightarrow> upload_state" where
  "sample_upload_state f n =
     \<lparr>file_selected = f, preview = map_option (\<lambda>_. js ''blob:1'') f, uploading = False,
      result = None, error_upload = None, caption = [], location = [], personName = n,
      notes_upload = js ''met in Paris'', newFaces = []\<rparr>"

section \<open>Lemmas on strings\<close>

lemma trim_empty_iff: "trim s = [] \<longleftrightarrow> (\<forall>c\<in>set s. isWhiteSpace c)"
proof
  assume t: "trim s = []"
  have a: "\<forall>c\<in>set (dropWhile isWhiteSpace s). isWhiteSpace c"
    using t unfolding trim_def by (simp add: dropWhile_eq_Nil_conv)
  have "dropWhile isWhiteSpace s = []"
  proof (rule ccontr)
    assume n: "dropWhile isWhiteSpace s \<noteq> []"
    then have "\<not> isWhiteSpace (hd (dropWhile isWhiteSpace s))" by (rule hd_dropWhile)
    moreover have "hd (dropWhile isWhiteSpace s) \<in> set (dropWhile isWhiteSpace s)"
      using n by (rule hd_in_set)
    ultimately show False using a by blast
  qed
  then show "\<forall>c\<in>set s. isWhiteSpace c" by (simp add: dropWhile_eq_Nil_conv)
next
  assume "\<forall>c\<in>set s. isWhiteSpace c"
  then have "dropWhile isWhiteSpace s = []" by (simp add: dropWhile_eq_Nil_conv)
  then show "trim s = []" unfolding trim_def by (simp only: rev.simps dropWhile.simps)
qed

section \<open>Store actions\<close>

text \<open>
  C9, as stated, fails when another action writes \<open>error\<close> while the graph request is
  pending. \<open>Home\<close> starts \<open>fetchGraphData\<close> and \<open>fetchPersons\<close> together: when the
  persons request rejects first and the graph request then resolves, the successful run
  of \<open>fetchGraphData\<close> ends with \<open>error = 'Failed to fetch persons'\<close>, not null.
\<close>

theorem fetchGraphData_interleaved_counterexample:
  "error (fetchGraphData_settle (Inr sample_graph)
      (fetchPersons_settle (Inl sample_error)
         (fetchPersons_begin (fst (fetchGraphData_begin None initial_state))))) =
     Some (js ''Failed to fetch persons'')
   \<and> error (fetchGraphData_settle (Inr sample_graph)
      (fetchPersons_settle (Inl sample_error)
         (fetchPersons_begin (fst (fetchGraphData_begin None initial_state))))) \<noteq> None
   \<and> graphData (fetchGraphData_settle (Inr sample_graph)
      (fetchPersons_settle (Inl sample_error)
         (fetchPersons_begin (fst (fetchGraphData_begin None initial_state))))) =
     Some sample_graph"
  by (simp add: fetchGraphData_settle_def fetchPersons_settle_def fetchPersons_begin_def
      fetchGraphData_begin_def)

text \<open>
  C9, amended. \<open>fetchGraphData\<close> starts by setting \<open>isLoading\<close> to true and \<open>error\<close> to
  null, and requests the graph with the limit given, 500 by default. When the request
  rejects, the run writes only \<open>error\<close> and \<open>isLoading\<close>: \<open>graphData\<close> is left as it
  is, \<open>error\<close> is \<open>'Failed to fetch graph data'\<close> and \<open>isLoading\<close> ends false. When the
  request resolves, the run writes only \<open>graphData\<close> and \<open>isLoading\<close>: \<open>graphData\<close> is
  the response, \<open>isLoading\<close> ends false, and \<open>error\<close> is what it was when the request
  settled. A run with no other action of the store in between therefore ends with
  \<open>error\<close> null on success, and with \<open>graphData\<close> as before the run on a rejection.
\<close>

theorem fetchGraphData_outcome:
  "fetchGraphData_begin limit s =
     (s\<lparr>isLoading := True, error := None\<rparr>, case limit of None \<Rightarrow> 500 | Some l \<Rightarrow> l)
   \<and> fetchGraphData_settle (Inl e) s2 =
       s2\<lparr>error := Some (js ''Failed to fetch graph data''), isLoading := False\<rparr>
   \<and> graphData (fetchGraphData_settle (Inl e) s2) = graphData s2
   \<and> fetchGraphData_settle (Inr d) s2 = s2\<lparr>graphData := Some d, isLoading := False\<rparr>
   \<and> error (fetchGraphData_settle (Inr d) s2) = error s2
   \<and> (getFullGraph (case limit of None \<Rightarrow> 500 | Some l \<Rightarrow> l) = Inl e \<longrightarrow>
      graphData (fetchGraphData getFullGraph limit s) = graphData s
      \<and> error (fetchGraphData getFullGraph limit s) = Some (js ''Failed to fetch graph data'')
      \<and> isLoading (fetchGraphData getFullGraph limit s) = False)
   \<and> (getFullGraph (case limit of None \<Rightarrow> 500 | Some l \<Rightarrow> l) = Inr d \<longrightarrow>
      graphData (fetchGraphData getFullGraph limit s) = Some d
      \<and> error (fetchGraphData getFullGraph limit s) = None
      \<and> isLoading (fetchGraphData getFullGraph limit s) = False)"
  by (simp add: fetchGraphData_def fetchGraphData_begin_def fetchGraphData_settle_def
      split: option.split)

text \<open>A rejected default request over a loaded graph, and a resolved request with limit 20,
  each run alone.\<close>

theorem fetchGraphData_outcome_witness:
  "graphData (fetchGraphData sample_getFullGraph None
      (initial_state\<lparr>graphData := Some sample_graph\<rparr>)) = Some sample_graph
   \<and> error (fetchGraphData sample_getFullGraph None
      (initial_state\<lparr>graphData := Some sample_graph\<rparr>)) = Some (js ''Failed to fetch graph data'')
   \<and> isLoading (fetchGraphData sample_getFullGraph None
      (initial_state\<lparr>graphData := Some sample_graph\<rparr>)) = False
   \<and> graphData (fetchGraphData sample_getFullGraph
      (Some 20) initial_state) = Some sample_graph
   \<and> error (fetchGraphData sample_getFullGraph
      (Some 20) initial_state) = None
   \<and> isLoading (fetchGraphData sample_getFullGraph
      (Some 20) initial_state) = False"
  using fetchGraphData_outcome [of None "initial_state\<lparr>graphData := Some sample_graph\<rparr>"
      sample_error initial_state sample_graph sample_getFullGraph]
    fetchGraphData_outcome [of "Some 20" initial_state sample_error initial_state sample_graph
      sample_getFullGraph]
  by (simp add: sample_getFullGraph_def)

text \<open>
  C10. \<open>search\<close> modifies only \<open>searchResults\<close>, \<open>isLoading\<close> and \<open>error\<close>: for
  every query and search type, whether the request resolves or rejects, \<open>graphData\<close>,
  \<open>persons\<close>, \<open>posts\<close>, \<open>stats\<close>, \<open>selectedNode\<close>, \<open>sidebarOpen\<close> and
  \<open>graphMode\<close> are unchanged.
\<close>

theorem search_frame:
  "graphData (search searchGet query type s) = graphData s
   \<and> persons (search searchGet query type s) = persons s
   \<and> posts (search searchGet query type s) = posts s
   \<and> stats (search searchGet query type s) = stats s
   \<and> selectedNode (search searchGet query type s) = selectedNode s
   \<and> sidebarOpen (search searchGet query type s) = sidebarOpen s
   \<and> graphMode (search searchGet query type s) = graphMode s"
  by (simp add: search_def Let_def split: sum.split option.split)

section \<open>The graph view\<close>

lemma dom_fold_set_node:
  "dom (fold (\<lambda>node m. m(id_node node \<mapsto> node)) ns m0) = dom m0 \<union> id_node ` set ns"
  by (induction ns arbitrary: m0) auto

lemma has_nodeMap: "has (nodeMap ns) k \<longleftrightarrow> k \<in> id_node ` set ns"
proof -
  have "has (nodeMap ns) k \<longleftrightarrow> k \<in> dom (nodeMap ns)"
    by (auto simp: has_def)
  then show ?thesis by (simp add: nodeMap_def dom_fold_set_node)
qed

lemma id_fg_nodes: "id_fg ` set (nodes_fg (graphData_fg d)) = id_node ` set (nodes d)"
  by (simp add: graphData_fg_def Let_def image_image to_fg_node_def)

text \<open>
  C2. For every \<open>GraphData\<close> given to the graph view, the links of the force-graph data
  are exactly the input edges whose source id and target id both occur among the ids of
  the input nodes, in their order and reduced to source, target and type; no link
  references a node that is absent from the rendered node list.
\<close>

theorem graphData_fg_links:
  "links (graphData_fg d) =
     map to_fg_link
       (filter (\<lambda>edge. source_edge edge \<in> id_node ` set (nodes d)
                      \<and> target_edge edge \<in> id_node ` set (nodes d)) (edges d))
   \<and> (\<forall>l \<in> set (links (graphData_fg d)).
         source_link l \<in> id_fg ` set (nodes_fg (graphData_fg d))
         \<and> target_link l \<in> id_fg ` set (nodes_fg (graphData_fg d)))"
proof
  show eq: "links (graphData_fg d) =
     map to_fg_link
       (filter (\<lambda>edge. source_edge edge \<in> id_node ` set (nodes d)
                      \<and> target_edge edge \<in> id_node ` set (nodes d)) (edges d))"
    by (simp add: graphData_fg_def Let_def has_nodeMap)
  show "\<forall>l \<in> set (links (graphData_fg d)).
         source_link l \<in> id_fg ` set (nodes_fg (graphData_fg d))
         \<and> target_link l \<in> id_fg ` set (nodes_fg (graphData_fg d))"
    unfolding id_fg_nodes eq by (auto simp: to_fg_link_def)
qed

lemma js_p1_q1: "js ''p1'' \<noteq> js ''q1''" "js ''q2'' \<noteq> js ''p1''" "js ''q2'' \<noteq> js ''q1''"
  by (simp_all add: js_def)

text \<open>In the sample graph the edge to the missing node \<open>q2\<close> is dropped.\<close>

theorem graphData_fg_links_witness:
  "links (graphData_fg sample_graph) = [to_fg_link (sample_edge ''p1'' ''q1'')]
   \<and> map id_fg (nodes_fg (graphData_fg sample_graph)) = [js ''p1'', js ''q1'']
   \<and> source_link (to_fg_link (sample_edge ''p1'' ''q1'')) = js ''p1''
   \<and> target_link (to_fg_link (sample_edge ''p1'' ''q1'')) = js ''q1''"
  using graphData_fg_links [of sample_graph]
  by (simp add: sample_graph_def sample_node_def sample_edge_def js_p1_q1 to_fg_link_def
      graphData_fg_def to_fg_node_def Let_def)

section \<open>The API client\<close>

text \<open>
  C6. For every username, \<open>importPosts(username)\<close> called without the optional arguments
  sends one POST to \<open>/instagram/import\<close> with the body
  \<open>{username, max_posts: 50, include_tagged: true}\<close>, and returns the data of the
  response (\<open>job_id\<close>, \<open>message\<close>, \<open>status_url\<close>); a rejected request rejects the call.
\<close>

theorem importPosts_defaults:
  "importPosts u None None (t :: import_started transport) =
     (case respond t (POST (js ''/instagram/import'')
                        \<lparr>username = u, max_posts = 50, include_tagged = True\<rparr>) of
        Inl e \<Rightarrow> Inl e
      | Inr resp \<Rightarrow> Inr (data resp),
      t\<lparr>sent := sent t @ [POST (js ''/instagram/import'')
                            \<lparr>username = u, max_posts = 50, include_tagged = True\<rparr>]\<rparr>)"
  by (simp add: importPosts_def api_post_def)





section \<open>The import page\<close>

text \<open>
  C4. After a status poll returns, a further poll is scheduled, 2000 ms later, if and only
  if the returned status is \<open>'running'\<close>, and then nothing else changes but
  \<open>importStatus\<close>. Any other status, the non-terminal \<open>'pending'\<close> included, schedules
  nothing, sets \<open>importing\<close> to false and calls the four refreshes (graph, persons, posts,
  stats); with no other timer pending, no later outcome changes the state any more. An
  import started by \<open>handleInstagramImport\<close> schedules the first poll 2000 ms later, and
  its polling goes on exactly while the polls return \<open>'running'\<close>.
\<close>

theorem pollStatus_schedules:
  "timers (pollStatus jobId (Inr job) s) =
     timers s @ (if status job = js ''running'' then [(2000, jobId)] else [])
   \<and> (status job = js ''running'' \<longrightarrow>
        importing (pollStatus jobId (Inr job) s) = importing s
        \<and> store_calls (pollStatus jobId (Inr job) s) = store_calls s)
   \<and> (status job \<noteq> js ''running'' \<longrightarrow>
        importing (pollStatus jobId (Inr job) s) = False
        \<and> store_calls (pollStatus jobId (Inr job) s) =
            store_calls s @ [Call_fetchGraphData, Call_fetchPersons, Call_fetchPosts,
                             Call_fetchStats]
        \<and> (timers s = [] \<longrightarrow>
             run_timers outcomes (pollStatus jobId (Inr job) s) =
               pollStatus jobId (Inr job) s))
   \<and> (timers s0 = [] \<and> truthy (trim (importUsername s0))
        \<and> importPosts_call (importUsername s0) (importMaxPosts s0) = Inr started \<longrightarrow>
        timers (handleInstagramImport importPosts_call s0) = [(2000, job_id started)]
        \<and> run_timers (Inr job # outcomes) (handleInstagramImport importPosts_call s0) =
            (if status job = js ''running''
             then run_timers outcomes
                    (pollStatus (job_id started) (Inr job)
                       ((handleInstagramImport importPosts_call s0)\<lparr>timers := []\<rparr>))
             else pollStatus (job_id started) (Inr job)
                    ((handleInstagramImport importPosts_call s0)\<lparr>timers := []\<rparr>)))"
proof (intro conjI impI)
  show "timers (pollStatus jobId (Inr job) s) =
     timers s @ (if status job = js ''running'' then [(2000, jobId)] else [])"
    by (simp add: pollStatus_def Let_def)
next
  assume "status job = js ''running''"
  then show "importing (pollStatus jobId (Inr job) s) = importing s"
    and "store_calls (pollStatus jobId (Inr job) s) = store_calls s"
    by (simp_all add: pollStatus_def Let_def)
next
  assume n: "status job \<noteq> js ''running''"
  then show "importing (pollStatus jobId (Inr job) s) = False"
    and "store_calls (pollStatus jobId (Inr job) s) =
            store_calls s @ [Call_fetchGraphData, Call_fetchPersons, Call_fetchPosts,
                             Call_fetchStats]"
    by (simp_all add: pollStatus_def Let_def)
  assume "timers s = []"
  with n have "timers (pollStatus jobId (Inr job) s) = []"
    by (simp add: pollStatus_def Let_def)
  then show "run_timers outcomes (pollStatus jobId (Inr job) s) = pollStatus jobId (Inr job) s"
    by (cases outcomes) simp_all
next
  assume a: "timers s0 = [] \<and> truthy (trim (importUsername s0))
        \<and> importPosts_call (importUsername s0) (importMaxPosts s0) = Inr started"
  let ?h = "handleInstagramImport importPosts_call s0"
  show t: "timers ?h = [(2000, job_id started)]"
    using a by (simp add: handleInstagramImport_def Let_def)
  let ?p = "pollStatus (job_id started) (Inr job) (?h\<lparr>timers := []\<rparr>)"
  have step: "run_timers (Inr job # outcomes) ?h = run_timers outcomes ?p"
    using t by simp
  show "run_timers (Inr job # outcomes) ?h =
          (if status job = js ''running'' then run_timers outcomes ?p else ?p)"
  proof (cases "status job = js ''running''")
    case True
    with step show ?thesis by simp
  next
    case False
    then have "timers ?p = []" by (simp add: pollStatus_def Let_def)
    then have "run_timers outcomes ?p = ?p" by (cases outcomes) simp_all
    with step False show ?thesis by simp
  qed
qed

text \<open>A poll that returns \<open>'pending'\<close> ends the polling; one that returns \<open>'running'\<close>
  schedules the next.\<close>

theorem pollStatus_schedules_witness:
  "timers (pollStatus (js ''j1'') (Inr (sample_job (js ''pending'') 0 [])) sample_import_state) = []
   \<and> importing (pollStatus (js ''j1'') (Inr (sample_job (js ''pending'') 0 [])) sample_import_state) = False
   \<and> store_calls (pollStatus (js ''j1'') (Inr (sample_job (js ''pending'') 0 [])) sample_import_state) =
        [Call_fetchGraphData, Call_fetchPersons, Call_fetchPosts, Call_fetchStats]
   \<and> run_timers [Inr (sample_job (js ''running'') 3 []), Inr (sample_job (js ''completed'') 3 [])]
        (pollStatus (js ''j1'') (Inr (sample_job (js ''pending'') 0 [])) sample_import_state) =
        pollStatus (js ''j1'') (Inr (sample_job (js ''pending'') 0 [])) sample_import_state
   \<and> timers (pollStatus (js ''j1'') (Inr (sample_job (js ''running'') 3 [])) sample_import_state) =
        [(2000, js ''j1'')]
   \<and> importing (pollStatus (js ''j1'') (Inr (sample_job (js ''running'') 3 [])) sample_import_state) = True
   \<and> store_calls (pollStatus (js ''j1'') (Inr (sample_job (js ''running'') 3 [])) sample_import_state) = []
   \<and> timers (handleInstagramImport sample_importPosts_call sample_import_state) =
        [(2000, js ''j1'')]
   \<and> importStatus (run_timers [Inr (sample_job (js ''pending'') 0 []), Inr (sample_job (js ''completed'') 3 [])]
        (handleInstagramImport sample_importPosts_call sample_import_state)) =
        Some (Job (sample_job (js ''pending'') 0 []))"
  using pollStatus_schedules [of "js ''j1''" "sample_job (js ''pending'') 0 []" sample_import_state
      "[Inr (sample_job (js ''running'') 3 []), Inr (sample_job (js ''completed'') 3 [])]"
      sample_import_state sample_importPosts_call
      "\<lparr>job_id = js ''j1'', message = js ''Import started'',
        status_url = js ''/api/instagram/import/j1/status''\<rparr>"]
    pollStatus_schedules [of "js ''j1''" "sample_job (js ''running'') 3 []" sample_import_state "[]"
      sample_import_state sample_importPosts_call
      "\<lparr>job_id = js ''j1'', message = js ''Import started'',
        status_url = js ''/api/instagram/import/j1/status''\<rparr>"]
  by (simp add: sample_job_def sample_import_state_def sample_importPosts_call_def
      handleInstagramImport_def pollStatus_def Let_def truthy_def trim_def js_def
      isWhiteSpace_def)

text \<open>
  C5, as stated, fails for a job whose \<open>total_posts\<close> is 0: its errors are shown, but the
  total is rendered as \<open>'?'\<close> (\<open>total_posts || '?'\<close>), not as the counter.
\<close>

theorem import_status_counterexample:
  "errors (sample_job (js ''failed'') 0 [js ''Profile not found'']) \<noteq> []
   \<and> total_posts (sample_job (js ''failed'') 0 [js ''Profile not found'']) = 0
   \<and> map_option processed_shown
        (render_import_status (Some (Job (sample_job (js ''failed'') 0 [js ''Profile not found''])))) =
      Some (Some (0, Question_mark))
   \<and> map_option processed_shown
        (render_import_status (Some (Job (sample_job (js ''failed'') 0 [js ''Profile not found''])))) \<noteq>
      Some (Some (0, Total 0))"
  by (simp add: sample_job_def render_import_status_def)

text \<open>
  C5, amended. Whenever an import job whose errors list is non-empty is rendered, the panel
  shows the first 5 error messages of that list at most, in their original order, together
  with the processed counter, the total (as \<open>'?'\<close> when it is 0) and the faces-detected
  counter.
\<close>

theorem import_status_errors_shown:
  "errors j \<noteq> [] \<Longrightarrow>
     \<exists>p. render_import_status (Some (Job j)) = Some p
       \<and> errors_shown p = Some (take 5 (errors j))
       \<and> length (take 5 (errors j)) \<le> 5
       \<and> (\<exists>rest. errors j = take 5 (errors j) @ rest)
       \<and> processed_shown p =
           Some (processed_posts j,
                 if total_posts j = 0 then Question_mark else Total (total_posts j))
       \<and> faces_shown p = Some (faces_detected j)"
proof -
  assume "errors j \<noteq> []"
  moreover have "\<exists>rest. errors j = take 5 (errors j) @ rest"
    by (metis append_take_drop_id)
  ultimately show ?thesis
    by (simp add: render_import_status_def)
qed

text \<open>Seven errors: the first five are shown.\<close>

theorem import_status_errors_shown_witness:
  "map_option errors_shown (render_import_status
     (Some (Job (sample_job (js ''running'') 9
        [js ''e1'', js ''e2'', js ''e3'', js ''e4'', js ''e5'', js ''e6'', js ''e7''])))) =
     Some (Some [js ''e1'', js ''e2'', js ''e3'', js ''e4'', js ''e5''])
   \<and> map_option processed_shown (render_import_status
     (Some (Job (sample_job (js ''running'') 9
        [js ''e1'', js ''e2'', js ''e3'', js ''e4'', js ''e5'', js ''e6'', js ''e7''])))) =
     Some (Some (0, Total 9))
   \<and> map_option faces_shown (render_import_status
     (Some (Job (sample_job (js ''running'') 9
        [js ''e1'', js ''e2'', js ''e3'', js ''e4'', js ''e5'', js ''e6'', js ''e7''])))) =
     Some (Some 0)"
  using import_status_errors_shown
    [of "sample_job (js ''running'') 9
        [js ''e1'', js ''e2'', js ''e3'', js ''e4'', js ''e5'', js ''e6'', js ''e7'']"]
  by (auto simp: sample_job_def)

section \<open>The upload form\<close>

lemma post_form_updates [simp]:
  "post_form f (s\<lparr>uploading := u, error_upload := e\<rparr>) = post_form f s"
  by (simp add: post_form_def)

lemma person_form_updates [simp]:
  "person_form f (s\<lparr>uploading := u, error_upload := e\<rparr>) = person_form f s"
  by (simp add: person_form_def)

text \<open>
  \<open>file\<close> and \<open>preview\<close> go together in the first state, and every handler that writes
  one of them keeps them together: whenever the upload button is on the screen, a file is
  selected.
\<close>

lemma file_with_preview_handlers:
  "file_with_preview initial_upload_state"
  "file_with_preview s \<Longrightarrow> file_with_preview (onDrop acceptedFiles s)"
  "file_with_preview (clearFile s)"
  "file_with_preview s \<Longrightarrow> file_with_preview (fst (handleUpload_begin mode s))"
  "file_with_preview s \<Longrightarrow> file_with_preview (fst (handleUpload_settle onSuccess outcome s))"
  by (auto simp: file_with_preview_def initial_upload_state_def onDrop_def clearFile_def
      handleUpload_begin_def handleUpload_settle_def Let_def
      split: list.split option.split upload_mode.split upload_outcome.split sum.split)

lemma onDrop_preview_shown: "preview_shown (onDrop (selectedFile # others) s)"
  by (cases selectedFile) (simp add: onDrop_def preview_shown_def createObjectURL_def truthy_def js_def)

lemma preview_shown_file:
  assumes "file_with_preview s" and "preview_shown s"
  shows "\<exists>f. file_selected s = Some f"
  using assms by (cases "preview s") (auto simp: file_with_preview_def preview_shown_def)

lemma handleUpload_person_file:
  "((\<forall>c\<in>set (personName s). isWhiteSpace c) \<longrightarrow>
      filter is_createFromImage_call
        (snd (handleUpload Person_mode onSuccess upload createFromImage s)) = [])
   \<and> (file_selected s = Some f \<and> (\<forall>c\<in>set (personName s). isWhiteSpace c) \<longrightarrow>
      handleUpload Person_mode onSuccess upload createFromImage s =
        (s\<lparr>uploading := False,
           error_upload := Some (js ''Please enter a name for the person'')\<rparr>, []))
   \<and> (file_selected s = Some f \<and> \<not> (\<forall>c\<in>set (personName s). isWhiteSpace c) \<longrightarrow>
      filter is_createFromImage_call
        (snd (handleUpload Person_mode onSuccess upload createFromImage s)) =
        [Call_createFromImage
           ([(js ''file'', File_value f), (js ''name'', Text_value (personName s))]
            @ (if notes_upload s \<noteq> [] then [(js ''notes'', Text_value (notes_upload s))]
               else []))])"
proof (cases "file_selected s")
  case None
  then show ?thesis by (simp add: handleUpload_def handleUpload_begin_def)
next
  case (Some g)
  show ?thesis
  proof (cases "\<forall>c\<in>set (personName s). isWhiteSpace c")
    case True
    then have "trim (personName s) = []" by (simp add: trim_empty_iff)
    with Some True show ?thesis
      by (simp add: handleUpload_def handleUpload_begin_def Let_def truthy_def)
  next
    case False
    then have "trim (personName s) \<noteq> []" by (simp add: trim_empty_iff)
    with Some False show ?thesis
      by (simp add: handleUpload_def handleUpload_begin_def handleUpload_settle_def Let_def
          truthy_def person_form_def split: sum.split)
  qed
qed

text \<open>
  C7. \<open>handleUpload\<close> runs from the upload button, which is rendered under
  \<open>preview &&\<close>, in a state where \<open>file\<close> and \<open>preview\<close> go together. In person mode
  it never invokes \<open>createFromImage\<close> when the entered name is empty or whitespace-only:
  it sets the error message \<open>'Please enter a name for the person'\<close>, resets
  \<open>uploading\<close> and changes nothing else. With a non-blank name, \<open>createFromImage\<close> is
  invoked exactly once, with the selected file, that name, and the notes when present.
\<close>

theorem handleUpload_person:
  "((\<forall>c\<in>set (personName s). isWhiteSpace c) \<longrightarrow>
      filter is_createFromImage_call
        (snd (handleUpload Person_mode onSuccess upload createFromImage s)) = [])
   \<and> (file_with_preview s \<and> preview_shown s \<and> (\<forall>c\<in>set (personName s). isWhiteSpace c) \<longrightarrow>
      handleUpload Person_mode onSuccess upload createFromImage s =
        (s\<lparr>uploading := False,
           error_upload := Some (js ''Please enter a name for the person'')\<rparr>, []))
   \<and> (file_with_preview s \<and> preview_shown s
        \<and> \<not> (\<forall>c\<in>set (personName s). isWhiteSpace c) \<longrightarrow>
      (\<exists>f. file_selected s = Some f
         \<and> filter is_createFromImage_call
             (snd (handleUpload Person_mode onSuccess upload createFromImage s)) =
             [Call_createFromImage
                ([(js ''file'', File_value f), (js ''name'', Text_value (personName s))]
                 @ (if notes_upload s \<noteq> [] then [(js ''notes'', Text_value (notes_upload s))]
                    else []))]))"
proof (intro conjI impI)
  assume "\<forall>c\<in>set (personName s). isWhiteSpace c"
  then show "filter is_createFromImage_call
        (snd (handleUpload Person_mode onSuccess upload createFromImage s)) = []"
    using handleUpload_person_file [of s onSuccess upload createFromImage] by blast
next
  assume a: "file_with_preview s \<and> preview_shown s \<and> (\<forall>c\<in>set (personName s). isWhiteSpace c)"
  then obtain f where "file_selected s = Some f" using preview_shown_file by blast
  with a show "handleUpload Person_mode onSuccess upload createFromImage s =
        (s\<lparr>uploading := False,
           error_upload := Some (js ''Please enter a name for the person'')\<rparr>, [])"
    using handleUpload_person_file [of s onSuccess upload createFromImage f] by blast
next
  assume a: "file_with_preview s \<and> preview_shown s
        \<and> \<not> (\<forall>c\<in>set (personName s). isWhiteSpace c)"
  then obtain f where f: "file_selected s = Some f" using preview_shown_file by blast
  with a have "filter is_createFromImage_call
             (snd (handleUpload Person_mode onSuccess upload createFromImage s)) =
             [Call_createFromImage
                ([(js ''file'', File_value f), (js ''name'', Text_value (personName s))]
                 @ (if notes_upload s \<noteq> [] then [(js ''notes'', Text_value (notes_upload s))]
                    else []))]"
    using handleUpload_person_file [of s onSuccess upload createFromImage f] by blast
  with f show "\<exists>f. file_selected s = Some f
         \<and> filter is_createFromImage_call
             (snd (handleUpload Person_mode onSuccess upload createFromImage s)) =
             [Call_createFromImage
                ([(js ''file'', File_value f), (js ''name'', Text_value (personName s))]
                 @ (if notes_upload s \<noteq> [] then [(js ''notes'', Text_value (notes_upload s))]
                    else []))]"
    by blast
qed

text \<open>A whitespace-only name (space, no-break space, tab) and the name \<open>Ada\<close>, each
  entered after the file \<open>a.png\<close> was dropped.\<close>

theorem handleUpload_person_witness:
  "handleUpload Person_mode True sample_upload sample_createFromImage
     (sample_upload_state (Some (File (js ''a.png''))) [0x20, 0xA0, 0x09]) =
     ((sample_upload_state (Some (File (js ''a.png''))) [0x20, 0xA0, 0x09])
        \<lparr>uploading := False,
         error_upload := Some (js ''Please enter a name for the person'')\<rparr>, [])
   \<and> snd (handleUpload Person_mode True sample_upload sample_createFromImage
        (sample_upload_state (Some (File (js ''a.png''))) (js ''Ada''))) =
      [Call_createFromImage
         [(js ''file'', File_value (File (js ''a.png''))), (js ''name'', Text_value (js ''Ada'')),
          (js ''notes'', Text_value (js ''met in Paris''))],
       Call_onSuccess]"
  using handleUpload_person [of "sample_upload_state (Some (File (js ''a.png''))) [0x20, 0xA0, 0x09]"
      True sample_upload sample_createFromImage]
    handleUpload_person [of "sample_upload_state (Some (File (js ''a.png''))) (js ''Ada'')"
      True sample_upload sample_createFromImage]
  by (simp add: sample_upload_state_def isWhiteSpace_def handleUpload_def handleUpload_begin_def
      handleUpload_settle_def Let_def truthy_def trim_def js_def person_form_def
      sample_createFromImage_def file_with_preview_def preview_shown_def)



section \<open>The embedding matcher\<close>

lemma fold_closest:
  fixes cs :: "(js_string \<times> real) list"
  shows "fold (\<lambda>x best. if snd x < snd best then x else best) cs b \<in> set (b # cs)
   \<and> (\<forall>x \<in> set (b # cs). snd (fold (\<lambda>x best. if snd x < snd best then x else best) cs b) \<le> snd x)"
proof (induction cs arbitrary: b)
  case Nil
  then show ?case by simp
next
  case (Cons c cs)
  show ?case
    using Cons.IH [of "if snd c < snd b then c else b"]
    by (auto split: if_splits)
qed

lemma closest_Some:
  assumes "closest cs = Some c"
  shows "c \<in> set cs \<and> (\<forall>x \<in> set cs. snd c \<le> snd x)"
proof (cases cs)
  case Nil
  with assms show ?thesis by simp
next
  case (Cons b bs)
  with assms have "c = fold (\<lambda>x best. if snd x < snd best then x else best) bs b" by simp
  then show ?thesis using fold_closest [of bs b] Cons by simp
qed

lemma closest_None: "closest cs = None \<longleftrightarrow> cs = []"
  by (cases cs) simp_all

text \<open>
  C1. For every registry that contains exactly one person, holding embedding \<open>E1\<close>, and
  every query \<open>E2\<close> with \<open>distance E1 E2 \<le> tolerance\<close>, \<open>match\<close> returns that person,
  at a distance within the tolerance; and for every registry and every query whose distance
  to every registered embedding exceeds the tolerance, \<open>match\<close> returns \<open>NoMatch\<close>. The
  distance is symmetric on \<open>E1\<close> and \<open>E2\<close>.
\<close>

theorem match_within_tolerance:
  assumes sym: "distance E1 E2 = distance E2 E1"
  shows "(E1 \<in> set (embeddings p) \<and> distance E1 E2 \<le> tolerance \<longrightarrow>
           (\<exists>d. d \<le> tolerance \<and> match tolerance distance [p] E2 = Match (personId p) d))
         \<and> ((\<forall>p \<in> set registry. \<forall>e \<in> set (embeddings p). tolerance < distance q e) \<longrightarrow>
             match tolerance distance registry q = NoMatch)"
proof (intro conjI impI)
  assume a: "E1 \<in> set (embeddings p) \<and> distance E1 E2 \<le> tolerance"
  let ?cs = "candidates distance [p] E2"
  have cs: "?cs = map (\<lambda>e. (personId p, distance E2 e)) (embeddings p)"
    by (simp add: candidates_def)
  have mem: "(personId p, distance E2 E1) \<in> set ?cs" using a cs by auto
  then have "?cs \<noteq> []" by auto
  then obtain c where c: "closest ?cs = Some c" using closest_None [of ?cs] by auto
  from closest_Some [OF c] have cin: "c \<in> set ?cs" and cmin: "\<forall>x \<in> set ?cs. snd c \<le> snd x"
    by auto
  from cin cs have fstc: "fst c = personId p" by auto
  from cmin mem have "snd c \<le> distance E2 E1" by fastforce
  with a sym have le: "snd c \<le> tolerance" by simp
  have "match tolerance distance [p] E2 = Match (personId p) (snd c)"
    using c le fstc by (cases c) (simp add: match_def)
  with le show "\<exists>d. d \<le> tolerance \<and> match tolerance distance [p] E2 = Match (personId p) d"
    by blast
next
  assume far: "\<forall>p \<in> set registry. \<forall>e \<in> set (embeddings p). tolerance < distance q e"
  let ?cs = "candidates distance registry q"
  have all: "\<forall>x \<in> set ?cs. tolerance < snd x"
    using far by (auto simp: candidates_def)
  show "match tolerance distance registry q = NoMatch"
  proof (cases "closest ?cs")
    case None
    then show ?thesis by (simp add: match_def)
  next
    case (Some c)
    from closest_Some [OF Some] all have "tolerance < snd c" by blast
    with Some show ?thesis by (cases c) (simp add: match_def)
  qed
qed

lemma sum_squares_sym:
  "(\<Sum>(a, b) \<leftarrow> zip x y. (a - b)\<^sup>2) = (\<Sum>(a, b) \<leftarrow> zip y x. (a - b :: real)\<^sup>2)"
  by (induction x y rule: list_induct2') (simp_all add: power2_commute)

lemma euclidean_sym: "euclidean x y = euclidean y x"
  by (simp add: euclidean_def sum_squares_sym [of x y])

lemma sqrt_quarter: "sqrt (1 / 4) = 1 / 2"
  by (simp add: real_sqrt_divide)

text \<open>Tolerance 0.6: a query at Euclidean distance 0.5 matches, one at distance 1 does not.\<close>

theorem match_within_tolerance_witness:
  "match (6 / 10) euclidean sample_registry [3 / 10, 4 / 10] = Match (js ''alice'') (1 / 2)
   \<and> match (6 / 10) euclidean sample_registry [1, 0] = NoMatch"
  using match_within_tolerance [of euclidean "[0, 0]" "[3 / 10, 4 / 10]"
      "\<lparr>personId = js ''alice'', embeddings = [[0, 0]]\<rparr>" "6 / 10" sample_registry "[1, 0]",
      OF euclidean_sym]
  by (simp add: match_def candidates_def sample_registry_def euclidean_def power2_eq_square
      sqrt_quarter)

end
